theory Spec2Isabelle
  imports Main "HOL-Library.Char_ord" "HOL-Library.List_Lexorder"
begin

section \<open>The client service of the rport server\<close>

text \<open>
  This theory embeds \<^verbatim>\<open>server/client_service.go\<close> (package \<^verbatim>\<open>chserver\<close>), the
  second document of \<^verbatim>\<open>src/server/routes/routes.go\<close>. Every method of
  \<^verbatim>\<open>ClientService\<close> that changes or inspects the registry is translated as a function
  on an explicit state. The mutex \<^verbatim>\<open>mu\<close> is not modelled: every operation is one atomic
  step of a sequential model. Calls of the logger are left out, they return nothing.
  The methods that only hand a call on to the repository (\<^verbatim>\<open>Count\<close>, \<^verbatim>\<open>GetByID\<close>,
  \<^verbatim>\<open>GetAll\<close>, \<^verbatim>\<open>GetUserClients\<close> and the like) are the repository functions
  themselves.

  Go passes clients, remotes and groups by pointer. Here they are values: a function that
  writes to an object of its caller returns the object as it is afterwards. A record of the
  repository changes only by \<^verbatim>\<open>Save\<close> and \<^verbatim>\<open>Delete\<close>; that a caller may hold a pointer
  to the very object the repository stores is outside this model.

  The packages \<^verbatim>\<open>clients\<close>, \<^verbatim>\<open>ports\<close>, \<^verbatim>\<open>cgroups\<close> and \<^verbatim>\<open>share\<close> are not
  part of the sources at hand: what the service calls there is modelled from the
  specification (sections 3 and 4.1 to 4.3), and each such definition says so.
\<close>

subsection \<open>Errors\<close>

text \<open>
  Go errors are values. An error made by a collaborator is \<open>Collab\<close> with its text; every
  \<^verbatim>\<open>fmt.Errorf\<close> of the service is a constructor of its own that keeps the arguments of
  the format string (the text itself is not rendered); \<^verbatim>\<open>errors.APIError\<close> keeps its three
  fields \<^verbatim>\<open>HTTPStatus\<close>, \<^verbatim>\<open>Message\<close> and \<^verbatim>\<open>Err\<close>.
\<close>

datatype api_message =
    NoMessage
  | InvalidLocalPort string
  | PortNotAllowed int
  | PortInUse int
  | ClientIsActive
  | ClientIDEmpty
  | ClientNotFound string
  | AccessDenied "string list"

datatype error =
    Collab string
  | ErrGetClientByID string
  | ErrClientIDInUse string
  | ErrClientAuthIDInUse string
  | ErrGetHost string error
  | ErrCantCreateTunnel error
  | ErrFindClient string error
  | APIError int api_message "error option"

definition StatusBadRequest :: int where "StatusBadRequest = 400"
definition StatusConflict :: int where "StatusConflict = 409"

subsection \<open>Data\<close>

type_synonym time = nat
type_synonym duration = nat
type_synonym tunnel_acl = "string list"
type_synonym updates_status = string

text \<open>
  Modelled from the spec: \<^verbatim>\<open>chshare.Remote\<close> (section 3, Tunnel: target host and port
  on the agent side, requested local host and port, the random-port flag) with the
  fields the service reads and writes: \<^verbatim>\<open>LocalHost\<close>, \<^verbatim>\<open>LocalPort\<close>,
  \<^verbatim>\<open>LocalPortRandom\<close> and the optional \<^verbatim>\<open>ACL\<close> string.
\<close>

record remote =
  LocalHost :: string
  LocalPort :: string
  RemoteHost :: string
  RemotePort :: string
  LocalPortRandom :: bool
  ACL :: "string option"

text \<open>Modelled from the spec: \<^verbatim>\<open>clients.Tunnel\<close>, a remote and its parsed ACL.\<close>

record tunnel =
  Remote :: remote
  TunnelACL :: "tunnel_acl option"

text \<open>
  The connection handle \<^verbatim>\<open>ssh.Conn\<close> is opaque to the service, which only asks for
  its remote address and closes it: the handle is modelled by what it answers.
\<close>

record conn =
  RemoteAddr :: string
  CloseError :: "string option"

text \<open>
  \<^verbatim>\<open>chshare.ConnectionRequest\<close>, with the fields \<^verbatim>\<open>StartClient\<close> reads.
\<close>

record connection_request =
  req_Name :: string
  req_OS :: string
  req_OSArch :: string
  req_OSFamily :: string
  req_OSKernel :: string
  req_OSFullName :: string
  req_OSVersion :: string
  req_OSVirtualizationSystem :: string
  req_OSVirtualizationRole :: string
  req_Hostname :: string
  req_CPUFamily :: string
  req_CPUModel :: string
  req_CPUModelName :: string
  req_CPUVendor :: string
  req_NumCPUs :: int
  req_MemoryTotal :: nat
  req_Timezone :: string
  req_IPv4 :: "string list"
  req_IPv6 :: "string list"
  req_Tags :: "string list"
  req_Version :: string
  Remotes :: "remote list"

text \<open>
  \<^verbatim>\<open>clients.Client\<close>, with the fields the struct literal of \<^verbatim>\<open>StartClient\<close> sets and
  the two the service updates later (\<^verbatim>\<open>AllowedUserGroups\<close>, \<^verbatim>\<open>UpdatesStatus\<close>). The
  fields \<^verbatim>\<open>Context\<close> and \<^verbatim>\<open>Logger\<close> are left out: nothing in the service reads them.
\<close>

record client =
  ID :: string
  Name :: string
  OS :: string
  OSArch :: string
  OSFamily :: string
  OSKernel :: string
  OSFullName :: string
  OSVersion :: string
  OSVirtualizationSystem :: string
  OSVirtualizationRole :: string
  Hostname :: string
  CPUFamily :: string
  CPUModel :: string
  CPUModelName :: string
  CPUVendor :: string
  NumCPUs :: int
  MemoryTotal :: nat
  Timezone :: string
  IPv4 :: "string list"
  IPv6 :: "string list"
  Tags :: "string list"
  Version :: string
  Address :: string
  Tunnels :: "tunnel list"
  DisconnectedAt :: "time option"
  ClientAuthID :: string
  Connection :: "conn option"
  AllowedUserGroups :: "string list"
  UpdatesStatus :: "updates_status option"

text \<open>\<^verbatim>\<open>cgroups.ClientGroup\<close>: the service only appends to and sorts \<^verbatim>\<open>ClientIDs\<close>.\<close>

record client_group =
  GroupID :: string
  ClientIDs :: "string list"


subsection \<open>The standard library\<close>

text \<open>
  \<^verbatim>\<open>strconv.Atoi\<close>: an optional sign and then decimal digits only, at least one; the
  value must fit the 64-bit \<^verbatim>\<open>int\<close>. The error is returned as its text.
\<close>

definition digit_val :: "char \<Rightarrow> nat option" where
  "digit_val c =
     (if CHR ''0'' \<le> c \<and> c \<le> CHR ''9'' then Some (of_char c - 48) else None)"

fun parse_digits :: "string \<Rightarrow> nat \<Rightarrow> nat option" where
  "parse_digits [] acc = Some acc"
| "parse_digits (c # cs) acc =
     (case digit_val c of None \<Rightarrow> None | Some v \<Rightarrow> parse_digits cs (10 * acc + v))"

definition Atoi :: "string \<Rightarrow> string + int" where
  "Atoi s =
     (let neg = (s \<noteq> [] \<and> hd s = CHR ''-'');
          body = (if s \<noteq> [] \<and> (hd s = CHR ''+'' \<or> hd s = CHR ''-'') then tl s else s)
      in if body = [] then Inl ''invalid syntax''
         else case parse_digits body 0 of
                None \<Rightarrow> Inl ''invalid syntax''
              | Some n \<Rightarrow>
                  (let v = (if neg then - int n else int n)
                   in if v < - (2 ^ 63) \<or> 2 ^ 63 \<le> v then Inl ''value out of range''
                      else Inr v))"

text \<open>\<^verbatim>\<open>strconv.Itoa\<close>: the decimal digits of an integer, with a minus sign if negative.\<close>

fun nat_digits :: "nat \<Rightarrow> string" where
  "nat_digits n =
     (if n < 10 then [char_of (48 + n)]
      else nat_digits (n div 10) @ [char_of (48 + n mod 10)])"

declare nat_digits.simps [simp del]

definition Itoa :: "int \<Rightarrow> string" where
  "Itoa i = (if i < 0 then CHR ''-'' # nat_digits (nat (- i)) else nat_digits (nat i))"

text \<open>
  What the service calls and neither the sources nor the specification define: the
  parser of tunnel ACLs (\<^verbatim>\<open>clients.ParseTunnelACL\<close>), \<^verbatim>\<open>net.SplitHostPort\<close> and the
  membership test of a client in a group (\<^verbatim>\<open>Client.BelongsTo\<close>, "exact semantics of
  group matching are external"). They are parameters of the model; an error is its text.
\<close>

record deps =
  ParseTunnelACL :: "string \<Rightarrow> string + tunnel_acl"
  SplitHostPort :: "string \<Rightarrow> string + (string \<times> string)"
  BelongsTo :: "client \<Rightarrow> client_group \<Rightarrow> bool"

subsection \<open>The client repository\<close>

text \<open>
  Modelled from the spec: \<^verbatim>\<open>clients.ClientRepository\<close> (section 4.2), a store of
  clients keyed by client id with the retention setting \<^verbatim>\<open>KeepLostClients\<close>. The
  store is a list with at most one client per id. The I/O failures of the repository that
  the service handles are the fields \<open>get_failure\<close>, \<open>save_failure\<close> and
  \<open>delete_failure\<close>: when one is set the operation returns that error and changes
  nothing.
\<close>

record client_repository =
  clients :: "client list"
  KeepLostClients :: "duration option"
  get_failure :: "string option"
  save_failure :: "string option"
  delete_failure :: "string option"

text \<open>Modelled from the spec: \<^verbatim>\<open>GetByID\<close>, the lookup by client id; no record is \<open>None\<close>.\<close>

definition GetByID :: "client_repository \<Rightarrow> string \<Rightarrow> error + client option" where
  "GetByID r cid =
     (case get_failure r of
        Some e \<Rightarrow> Inl (Collab e)
      | None \<Rightarrow> Inr (find (\<lambda>c. ID c = cid) (clients r)))"

text \<open>Modelled from the spec: \<^verbatim>\<open>GetAll\<close>, every record of the store.\<close>

definition GetAll :: "client_repository \<Rightarrow> error + client list" where
  "GetAll r = (case get_failure r of Some e \<Rightarrow> Inl (Collab e) | None \<Rightarrow> Inr (clients r))"

text \<open>
  Modelled from the spec: \<^verbatim>\<open>GetAllByClientAuthID\<close>, the secondary lookup by client-auth
  id. It returns clients only (no error), as its call sites in the service show, and
  every record with that auth id: the contract has \<^verbatim>\<open>GetAllActive\<close> beside
  \<^verbatim>\<open>GetAll\<close> for the connected ones, and names no such restriction here.
\<close>

definition GetAllByClientAuthID :: "client_repository \<Rightarrow> string \<Rightarrow> client list" where
  "GetAllByClientAuthID r a = filter (\<lambda>c. ClientAuthID c = a) (clients r)"




text \<open>Modelled from the spec: \<^verbatim>\<open>Save\<close>, insert-or-replace by client id.\<close>

definition Save :: "client_repository \<Rightarrow> client \<Rightarrow> error option \<times> client_repository" where
  "Save r c =
     (case save_failure r of
        Some e \<Rightarrow> (Some (Collab e), r)
      | None \<Rightarrow> (None, r\<lparr>clients := c # filter (\<lambda>x. ID x \<noteq> ID c) (clients r)\<rparr>))"

text \<open>Modelled from the spec: \<^verbatim>\<open>Delete\<close>, which removes the record unconditionally.\<close>

definition Delete :: "client_repository \<Rightarrow> client \<Rightarrow> error option \<times> client_repository" where
  "Delete r c =
     (case delete_failure r of
        Some e \<Rightarrow> (Some (Collab e), r)
      | None \<Rightarrow> (None, r\<lparr>clients := filter (\<lambda>x. ID x \<noteq> ID c) (clients r)\<rparr>))"

subsection \<open>The port distributor\<close>

text \<open>
  Modelled from the spec: \<^verbatim>\<open>ports.PortDistributor\<close> (section 4.1): the allowed ports,
  the busy ports as of the last refresh, the ports that are bound now (what \<^verbatim>\<open>Refresh\<close>
  reads), the failure of \<^verbatim>\<open>Refresh\<close> if it is to fail, and the draws of the random
  choice still to come.
\<close>

record port_distributor =
  allowed_ports :: "int list"
  busy_ports :: "int list"
  bound_ports :: "int list"
  refresh_failure :: "string option"
  draws :: "nat list"

definition Refresh :: "port_distributor \<Rightarrow> error + port_distributor" where
  "Refresh pd =
     (case refresh_failure pd of
        Some e \<Rightarrow> Inl (Collab e)
      | None \<Rightarrow> Inr (pd\<lparr>busy_ports := bound_ports pd\<rparr>))"

definition IsPortAllowed :: "port_distributor \<Rightarrow> int \<Rightarrow> bool" where
  "IsPortAllowed pd p = (p \<in> set (allowed_ports pd))"

definition IsPortBusy :: "port_distributor \<Rightarrow> int \<Rightarrow> bool" where
  "IsPortBusy pd p = (p \<in> set (busy_ports pd))"

text \<open>
  Modelled from the spec: \<^verbatim>\<open>GetRandomPort\<close>, one free allowed port picked by the next
  draw, busy from then on; a capacity error when no allowed port is free.
\<close>

definition GetRandomPort :: "port_distributor \<Rightarrow> error + (int \<times> port_distributor)" where
  "GetRandomPort pd =
     (let free = filter (\<lambda>p. \<not> IsPortBusy pd p) (allowed_ports pd) in
      if free = [] then Inl (Collab ''no ports available'')
      else let k = (case draws pd of [] \<Rightarrow> 0 | x # _ \<Rightarrow> x mod length free);
               p = free ! k
           in Inr (p, pd\<lparr>busy_ports := p # busy_ports pd, draws := tl (draws pd)\<rparr>))"

subsection \<open>Behaviour of clients and remotes\<close>

text \<open>
  Modelled from the spec: \<^verbatim>\<open>Remote.IsLocalSpecified\<close> (section 4.6, "if no explicit
  local port was specified").
\<close>

definition IsLocalSpecified :: "remote \<Rightarrow> bool" where
  "IsLocalSpecified r = (LocalPort r \<noteq> [])"

text \<open>
  Modelled from the spec: \<^verbatim>\<open>Client.StartTunnel\<close> (section 4.3) validates the remote
  against the tunnels the client holds, fails on a conflicting local port, and otherwise
  builds the tunnel and appends it to the client.
\<close>

definition StartTunnel :: "client \<Rightarrow> remote \<Rightarrow> tunnel_acl option \<Rightarrow> error + (tunnel \<times> client)" where
  "StartTunnel c r acl =
     (if list_ex (\<lambda>t. LocalPort (Remote t) = LocalPort r) (Tunnels c)
      then Inl (Collab ''conflicting local port'')
      else (let t = \<lparr>Remote = r, TunnelACL = acl\<rparr>
            in Inr (t, c\<lparr>Tunnels := Tunnels c @ [t]\<rparr>)))"

text \<open>Modelled from the spec: \<^verbatim>\<open>getRemotes\<close>, the remotes of a tunnel list.\<close>

definition getRemotes :: "tunnel list \<Rightarrow> remote list" where
  "getRemotes ts = map Remote ts"

text \<open>
  Modelled from the spec: two remotes are duplicates when they have the "same
  target/local spec" (section 4.5, step 2).
\<close>

definition same_spec :: "remote \<Rightarrow> remote \<Rightarrow> bool" where
  "same_spec a b =
     (RemoteHost a = RemoteHost b \<and> RemotePort a = RemotePort b \<and>
      LocalHost a = LocalHost b \<and> LocalPort a = LocalPort b)"

text \<open>
  Modelled from the spec: \<^verbatim>\<open>GetTunnelsToReestablish\<close> (sections 4.5 step 2 and 8,
  reconnect reconciliation): the remotes of the tunnels held before the disconnect that
  no newly requested remote duplicates.
\<close>

definition GetTunnelsToReestablish :: "remote list \<Rightarrow> remote list \<Rightarrow> remote list" where
  "GetTunnelsToReestablish old new = filter (\<lambda>oldr. \<not> list_ex (same_spec oldr) new) old"

subsection \<open>The state of the service\<close>

text \<open>
  \<^verbatim>\<open>ClientService\<close> holds the repository and the port distributor. \<open>closed_conns\<close>
  records the connections on which \<^verbatim>\<open>Close\<close> has been called, latest last: the effect
  of \<^verbatim>\<open>Client.Close\<close> outside the registry.
\<close>

record state =
  repo :: client_repository
  portDistributor :: port_distributor
  closed_conns :: "conn list"

text \<open>
  Modelled from the spec: \<^verbatim>\<open>Client.Close\<close> terminates the live connection handle
  and returns what the handle answers; without a handle there is nothing to close.
\<close>

definition Close :: "client \<Rightarrow> state \<Rightarrow> error option \<times> state" where
  "Close c s =
     (case Connection c of
        None \<Rightarrow> (None, s)
      | Some k \<Rightarrow> (map_option Collab (CloseError k), s\<lparr>closed_conns := closed_conns s @ [k]\<rparr>))"

subsection \<open>Registration: \<^verbatim>\<open>StartClient\<close> and the allocation of tunnels\<close>

text \<open>
  \<^verbatim>\<open>checkLocalPort\<close> (lines 354 to 379): the port must parse, be allowed and be free, in
  this order. \<open>None\<close> is the \<^verbatim>\<open>nil\<close> error.
\<close>

definition checkLocalPort :: "port_distributor \<Rightarrow> string \<Rightarrow> error option" where
  "checkLocalPort pd port =
     (case Atoi port of
        Inl err \<Rightarrow> Some (APIError StatusBadRequest (InvalidLocalPort port) (Some (Collab err)))
      | Inr localPort \<Rightarrow>
          if \<not> IsPortAllowed pd localPort
          then Some (APIError StatusBadRequest (PortNotAllowed localPort) None)
          else if IsPortBusy pd localPort
          then Some (APIError StatusConflict (PortInUse localPort) None)
          else None)"

text \<open>
  The body of the loop of \<^verbatim>\<open>startClientTunnels\<close> (lines 319 to 349) for one remote:
  the local port is drawn or checked, the ACL is parsed, the tunnel is started. It returns
  the tunnel with the client and the port distributor as they are afterwards.
\<close>

definition startTunnelFor ::
  "deps \<Rightarrow> remote \<Rightarrow> client \<Rightarrow> port_distributor \<Rightarrow> error + (tunnel \<times> client \<times> port_distributor)" where
  "startTunnelFor d remote c pd =
     (case (if \<not> IsLocalSpecified remote
            then (case GetRandomPort pd of
                    Inl err \<Rightarrow> Inl err
                  | Inr (port, pd') \<Rightarrow>
                      Inr (remote\<lparr>LocalPort := Itoa port, LocalHost := ''0.0.0.0'',
                                  LocalPortRandom := True\<rparr>, pd'))
            else (case checkLocalPort pd (LocalPort remote) of
                    Some err \<Rightarrow> Inl err
                  | None \<Rightarrow> Inr (remote, pd)))
      of
        Inl err \<Rightarrow> Inl err
      | Inr (remote', pd') \<Rightarrow>
          (case (case ACL remote' of
                   None \<Rightarrow> Inr None
                 | Some a \<Rightarrow>
                     (case ParseTunnelACL d a of
                        Inl err \<Rightarrow> Inl (Collab err)
                      | Inr acl \<Rightarrow> Inr (Some acl)))
           of
             Inl err \<Rightarrow> Inl err
           | Inr acl \<Rightarrow>
               (case StartTunnel c remote' acl of
                  Inl err \<Rightarrow> Inl (APIError StatusConflict NoMessage (Some (ErrCantCreateTunnel err)))
                | Inr (t, c') \<Rightarrow> Inr (t, c', pd'))))"

text \<open>
  The loop over the remotes, in request order, stopping at the first error. The client is
  changed in place by \<^verbatim>\<open>StartTunnel\<close>, so it is returned also when the loop fails, with
  the tunnels started so far.
\<close>

fun startTunnelsLoop ::
  "deps \<Rightarrow> remote list \<Rightarrow> tunnel list \<Rightarrow> client \<Rightarrow> port_distributor
     \<Rightarrow> (error + tunnel list) \<times> client \<times> port_distributor" where
  "startTunnelsLoop d [] tunnels c pd = (Inr tunnels, c, pd)"
| "startTunnelsLoop d (remote # remotes) tunnels c pd =
     (case startTunnelFor d remote c pd of
        Inl err \<Rightarrow> (Inl err, c, pd)
      | Inr (t, c', pd') \<Rightarrow> startTunnelsLoop d remotes (tunnels @ [t]) c' pd')"

text \<open>\<^verbatim>\<open>startClientTunnels\<close> (lines 311 to 352).\<close>

definition startClientTunnels ::
  "deps \<Rightarrow> client \<Rightarrow> remote list \<Rightarrow> state \<Rightarrow> (error + tunnel list) \<times> client \<times> state" where
  "startClientTunnels d c remotes s =
     (case Refresh (portDistributor s) of
        Inl err \<Rightarrow> (Inl err, c, s)
      | Inr pd \<Rightarrow>
          (case startTunnelsLoop d remotes [] c pd of
             (res, c', pd') \<Rightarrow> (res, c', s\<lparr>portDistributor := pd'\<rparr>)))"

text \<open>\<^verbatim>\<open>isClientAuthIDInUse\<close> (lines 432 to 439): the loop, then the method.\<close>

fun otherIDExists :: "client list \<Rightarrow> string \<Rightarrow> bool" where
  "otherIDExists [] clientID = False"
| "otherIDExists (c # cs) clientID = (if ID c \<noteq> clientID then True else otherIDExists cs clientID)"

definition isClientAuthIDInUse :: "state \<Rightarrow> string \<Rightarrow> string \<Rightarrow> bool" where
  "isClientAuthIDInUse s clientAuthID clientID =
     otherIDExists (GetAllByClientAuthID (repo s) clientAuthID) clientID"

text \<open>
  The struct literal of lines 247 to 277. \<^verbatim>\<open>AllowedUserGroups\<close> and \<^verbatim>\<open>UpdatesStatus\<close>
  are not named there and have their zero values.
\<close>

definition newClient :: "string \<Rightarrow> string \<Rightarrow> conn \<Rightarrow> connection_request \<Rightarrow> string \<Rightarrow> client" where
  "newClient clientAuthID clientID sshConn req clientHost =
     \<lparr>ID = clientID, Name = req_Name req, OS = req_OS req, OSArch = req_OSArch req,
      OSFamily = req_OSFamily req, OSKernel = req_OSKernel req,
      OSFullName = req_OSFullName req, OSVersion = req_OSVersion req,
      OSVirtualizationSystem = req_OSVirtualizationSystem req,
      OSVirtualizationRole = req_OSVirtualizationRole req, Hostname = req_Hostname req,
      CPUFamily = req_CPUFamily req, CPUModel = req_CPUModel req,
      CPUModelName = req_CPUModelName req, CPUVendor = req_CPUVendor req,
      NumCPUs = req_NumCPUs req, MemoryTotal = req_MemoryTotal req,
      Timezone = req_Timezone req, IPv4 = req_IPv4 req, IPv6 = req_IPv6 req,
      Tags = req_Tags req, Version = req_Version req, Address = clientHost, Tunnels = [],
      DisconnectedAt = None, ClientAuthID = clientAuthID, Connection = Some sshConn,
      AllowedUserGroups = [], UpdatesStatus = None\<rparr>"

text \<open>
  Lines 223 to 234: a connected record under the id is an error; a disconnected one adds
  the tunnels to re-establish to the remotes of the request.
\<close>

definition mergeOldTunnels :: "string \<Rightarrow> client option \<Rightarrow> remote list \<Rightarrow> error + remote list" where
  "mergeOldTunnels clientID oldClient remotes =
     (case oldClient of
        None \<Rightarrow> Inr remotes
      | Some oc \<Rightarrow>
          if DisconnectedAt oc = None then Inl (ErrClientIDInUse clientID)
          else (let oldTunnels = GetTunnelsToReestablish (getRemotes (Tunnels oc)) remotes
                in Inr (if length oldTunnels > 0 then remotes @ oldTunnels else remotes)))"

text \<open>
  \<^verbatim>\<open>StartClient\<close> (lines 211 to 292). The request belongs to the caller; what the service
  writes to it (the remotes appended, the local ports filled in) shows in the tunnels of the
  client and is not returned apart. On an error the Go code returns \<^verbatim>\<open>nil\<close> for the
  client, and the state is as the steps before the error left it.
\<close>

definition StartClient ::
  "deps \<Rightarrow> string \<Rightarrow> string \<Rightarrow> conn \<Rightarrow> bool \<Rightarrow> connection_request \<Rightarrow> state
     \<Rightarrow> (error + client) \<times> state" where
  "StartClient d clientAuthID clientID sshConn authMultiuseCreds req s =
     (case GetByID (repo s) clientID of
        Inl err \<Rightarrow> (Inl (ErrGetClientByID clientID), s)
      | Inr oldClient \<Rightarrow>
          (case mergeOldTunnels clientID oldClient (Remotes req) of
             Inl err \<Rightarrow> (Inl err, s)
           | Inr remotes \<Rightarrow>
               if \<not> authMultiuseCreds \<and> isClientAuthIDInUse s clientAuthID clientID
               then (Inl (ErrClientAuthIDInUse clientAuthID), s)
               else
                 (case SplitHostPort d (RemoteAddr sshConn) of
                    Inl err \<Rightarrow> (Inl (ErrGetHost (RemoteAddr sshConn) (Collab err)), s)
                  | Inr (clientHost, port) \<Rightarrow>
                      (let client0 = newClient clientAuthID clientID sshConn req clientHost;
                           client = (case oldClient of
                                       None \<Rightarrow> client0
                                     | Some oc \<Rightarrow> client0\<lparr>UpdatesStatus := UpdatesStatus oc\<rparr>)
                       in case startClientTunnels d client remotes s of
                            (Inl err, c', s') \<Rightarrow> (Inl err, s')
                          | (Inr ts, c', s') \<Rightarrow>
                              (case Save (repo s') c' of
                                 (Some err, r') \<Rightarrow> (Inl err, s'\<lparr>repo := r'\<rparr>)
                               | (None, r') \<Rightarrow> (Inr c', s'\<lparr>repo := r'\<rparr>))))))"


subsection \<open>Termination and removal\<close>

text \<open>
  \<^verbatim>\<open>Terminate\<close> (lines 381 to 400). \<open>now\<close> is what \<^verbatim>\<open>time.Now()\<close> returns. The client
  is the caller's and \<^verbatim>\<open>DisconnectedAt\<close> is written to it in place, so the client is
  returned with the error and the state.
\<close>

definition Terminate :: "time \<Rightarrow> client \<Rightarrow> state \<Rightarrow> error option \<times> client \<times> state" where
  "Terminate now c s =
     (case KeepLostClients (repo s) of
        None \<Rightarrow> (case Delete (repo s) c of (err, r') \<Rightarrow> (err, c, s\<lparr>repo := r'\<rparr>))
      | Some keep \<Rightarrow>
          (let c' = c\<lparr>DisconnectedAt := Some now\<rparr> in
           case GetByID (repo s) (ID c') of
             Inl err \<Rightarrow> (Some err, c', s)
           | Inr None \<Rightarrow> (None, c', s)
           | Inr (Some existing) \<Rightarrow>
               (case Save (repo s) c' of (err, r') \<Rightarrow> (err, c', s\<lparr>repo := r'\<rparr>))))"

text \<open>\<^verbatim>\<open>ForceDelete\<close> (lines 404 to 413).\<close>

definition ForceDelete :: "client \<Rightarrow> state \<Rightarrow> error option \<times> state" where
  "ForceDelete c s =
     (case (if DisconnectedAt c = None then Close c s else (None, s)) of
        (Some err, s') \<Rightarrow> (Some err, s')
      | (None, s') \<Rightarrow> (case Delete (repo s') c of (err, r') \<Rightarrow> (err, s'\<lparr>repo := r'\<rparr>)))"



subsection \<open>Access control and groups\<close>







subsection \<open>Predicates of the statements\<close>


text \<open>
  A tunnel serves a requested remote when it carries that remote as it was requested, or,
  for a remote without a local port, that remote with a local port filled in, the wildcard
  local host and the random-port flag set (lines 324 to 326).
\<close>

definition serves :: "tunnel \<Rightarrow> remote \<Rightarrow> bool" where
  "serves t r =
     (if IsLocalSpecified r then Remote t = r
      else Remote t = r\<lparr>LocalPort := LocalPort (Remote t), LocalHost := ''0.0.0.0'',
                         LocalPortRandom := True\<rparr>)"

subsection \<open>Concrete inputs\<close>

text \<open>Small registries, requests and collaborators on which the theorems below are run.\<close>

definition ex_remote :: "string \<Rightarrow> string \<Rightarrow> remote" where
  "ex_remote lport rport =
     \<lparr>LocalHost = (if lport = [] then [] else ''0.0.0.0''), LocalPort = lport,
      RemoteHost = ''127.0.0.1'', RemotePort = rport, LocalPortRandom = False, ACL = None\<rparr>"

definition ex_req :: "remote list \<Rightarrow> connection_request" where
  "ex_req rs =
     \<lparr>req_Name = ''agent'', req_OS = ''Linux'', req_OSArch = ''amd64'', req_OSFamily = ''debian'',
      req_OSKernel = ''linux'', req_OSFullName = ''Debian 11'', req_OSVersion = ''11'',
      req_OSVirtualizationSystem = ''kvm'', req_OSVirtualizationRole = ''guest'',
      req_Hostname = ''host1'', req_CPUFamily = ''6'', req_CPUModel = ''85'',
      req_CPUModelName = ''Xeon'', req_CPUVendor = ''Intel'', req_NumCPUs = 2,
      req_MemoryTotal = 4096, req_Timezone = ''UTC'', req_IPv4 = [''10.0.0.5''], req_IPv6 = [],
      req_Tags = [''prod''], req_Version = ''0.1'', Remotes = rs\<rparr>"

definition ex_conn :: "string option \<Rightarrow> conn" where
  "ex_conn ce = \<lparr>RemoteAddr = ''10.0.0.5:50000'', CloseError = ce\<rparr>"

definition ex_deps :: deps where
  "ex_deps =
     \<lparr>ParseTunnelACL = (\<lambda>a. if a = [] then Inl ''empty ACL'' else Inr [a]),
      SplitHostPort = (\<lambda>a. if CHR '':'' \<in> set a
                           then Inr (takeWhile (\<lambda>c. c \<noteq> CHR '':'') a,
                                     drop 1 (dropWhile (\<lambda>c. c \<noteq> CHR '':'') a))
                           else Inl ''missing port in address''),
      BelongsTo = (\<lambda>c g. GroupID g \<in> set (Tags c))\<rparr>"

definition ex_client :: "string \<Rightarrow> string \<Rightarrow> time option \<Rightarrow> tunnel list \<Rightarrow> client" where
  "ex_client cid auth disc ts =
     (newClient auth cid (ex_conn None) (ex_req []) ''10.0.0.5'')
       \<lparr>Tunnels := ts, DisconnectedAt := disc\<rparr>"

definition ex_repo :: "client list \<Rightarrow> duration option \<Rightarrow> client_repository" where
  "ex_repo cs keep =
     \<lparr>clients = cs, KeepLostClients = keep, get_failure = None, save_failure = None,
      delete_failure = None\<rparr>"

definition ex_pd :: port_distributor where
  "ex_pd = \<lparr>allowed_ports = [8080, 8081, 9000], busy_ports = [], bound_ports = [8081],
            refresh_failure = None, draws = [1]\<rparr>"

definition ex_state :: "client list \<Rightarrow> duration option \<Rightarrow> state" where
  "ex_state cs keep = \<lparr>repo = ex_repo cs keep, portDistributor = ex_pd, closed_conns = []\<rparr>"

section \<open>Auxiliary facts\<close>



lemma startTunnelFor_client:
  "startTunnelFor d r c pd = Inr (t, c', pd') \<Longrightarrow> c' = c\<lparr>Tunnels := Tunnels c @ [t]\<rparr>"
  by (auto simp: startTunnelFor_def StartTunnel_def Let_def split: if_splits sum.splits option.splits prod.splits)

lemma startTunnelsLoop_client:
  "startTunnelsLoop d rs ts c pd = (res, c', pd') \<Longrightarrow> \<exists>new. c' = c\<lparr>Tunnels := Tunnels c @ new\<rparr>"
proof (induction rs arbitrary: ts c pd)
  case Nil
  then show ?case by (intro exI[of _ "[]"]) simp
next
  case (Cons r rs)
  show ?case
  proof (cases "startTunnelFor d r c pd")
    case (Inl e)
    with Cons.prems show ?thesis by (intro exI[of _ "[]"]) simp
  next
    case (Inr x)
    obtain t c1 pd1 where x: "x = (t, c1, pd1)" by (cases x) auto
    from Inr x Cons.prems have "startTunnelsLoop d rs (ts @ [t]) c1 pd1 = (res, c', pd')" by simp
    from Cons.IH[OF this] obtain new where n: "c' = c1\<lparr>Tunnels := Tunnels c1 @ new\<rparr>" by blast
    from Inr x have "c1 = c\<lparr>Tunnels := Tunnels c @ [t]\<rparr>" by (simp add: startTunnelFor_client)
    with n show ?thesis by (intro exI[of _ "t # new"]) simp
  qed
qed

lemma startClientTunnels_client:
  "startClientTunnels d c rs s = (res, c', s') \<Longrightarrow> \<exists>new. c' = c\<lparr>Tunnels := Tunnels c @ new\<rparr>"
  unfolding startClientTunnels_def
  by (auto split: sum.splits prod.splits dest: startTunnelsLoop_client intro: exI[of _ "[]"])

lemma startClientTunnels_repo:
  "startClientTunnels d c rs s = (res, c', s') \<Longrightarrow> repo s' = repo s"
  unfolding startClientTunnels_def
  by (auto split: sum.splits prod.splits)

lemma GetByID_Save:
  "save_failure r = None \<Longrightarrow> get_failure r = None \<Longrightarrow> GetByID (snd (Save r c)) (ID c) = Inr (Some c)"
  by (simp add: GetByID_def Save_def)

lemma find_filter_other: "find (\<lambda>c. ID c = cid) (filter (\<lambda>x. ID x \<noteq> cid) cs) = None"
  by (induction cs) auto

lemma GetByID_Delete:
  "delete_failure r = None \<Longrightarrow> get_failure r = None \<Longrightarrow> GetByID (snd (Delete r c)) (ID c) = Inr None"
  by (simp add: GetByID_def Delete_def find_filter_other)

lemma GetByID_ok: "GetByID r cid = Inr x \<Longrightarrow> get_failure r = None"
  by (auto simp: GetByID_def split: option.splits)

lemma Save_failures:
  "get_failure (snd (Save r c)) = get_failure r"
  by (auto simp: Save_def split: option.splits)

section \<open>Properties of the service\<close>











lemma Save_failed_repo: "Save r c = (Some e, r') \<Longrightarrow> r' = r"
  by (auto simp: Save_def split: option.splits)

lemma StartClient_error_repo:
  assumes "StartClient d a cid k m req s = (Inl e, s')"
  shows "repo s' = repo s"
proof (cases "GetByID (repo s) cid")
  case (Inl x)
  with assms show ?thesis by (simp add: StartClient_def)
next
  case g: (Inr oldc)
  show ?thesis
  proof (cases "mergeOldTunnels cid oldc (Remotes req)")
    case (Inl x)
    with assms g show ?thesis by (simp add: StartClient_def)
  next
    case mg: (Inr rs)
    show ?thesis
    proof (cases "\<not> m \<and> isClientAuthIDInUse s a cid")
      case True
      with assms g mg show ?thesis by (auto simp: StartClient_def)
    next
      case au: False
      show ?thesis
      proof (cases "SplitHostPort d (RemoteAddr k)")
        case (Inl x)
        with assms g mg au show ?thesis by (auto simp: StartClient_def)
      next
        case (Inr hp)
        obtain host port where hp: "hp = (host, port)" by (cases hp) auto
        define c0 where "c0 = (case oldc of None \<Rightarrow> newClient a cid k req host
          | Some oc \<Rightarrow> (newClient a cid k req host)\<lparr>UpdatesStatus := UpdatesStatus oc\<rparr>)"
        obtain res c1 s1 where st: "startClientTunnels d c0 rs s = (res, c1, s1)"
          by (cases "startClientTunnels d c0 rs s") auto
        then have r1: "repo s1 = repo s" by (rule startClientTunnels_repo)
        from assms g mg au Inr hp st c0_def
        have "s' = s1 \<or> (\<exists>e' r'. Save (repo s1) c1 = (Some e', r') \<and> s' = s1\<lparr>repo := r'\<rparr>)"
          by (auto simp: StartClient_def Let_def split: sum.splits option.splits prod.splits)
        with r1 show ?thesis by (auto dest: Save_failed_repo)
      qed
    qed
  qed
qed

lemma StartClient_allocation_error:
  assumes "GetByID (repo s) cid = Inr oldc"
    and "mergeOldTunnels cid oldc (Remotes req) = Inr rs"
    and "m \<or> \<not> isClientAuthIDInUse s a cid"
    and "SplitHostPort d (RemoteAddr k) = Inr (host, port)"
    and "startClientTunnels d
           (case oldc of None \<Rightarrow> newClient a cid k req host
            | Some oc \<Rightarrow> (newClient a cid k req host)\<lparr>UpdatesStatus := UpdatesStatus oc\<rparr>)
           rs s = (Inl e, c1, s1)"
  shows "StartClient d a cid k m req s = (Inl e, s1)"
  using assms by (auto simp: StartClient_def Let_def)

text \<open>
  Claim C2. When \<^verbatim>\<open>StartClient\<close> has passed the checks of the client id and the auth id
  and has resolved the host, and the allocation of the tunnels for the client it has built
  fails, for whatever reason, then \<^verbatim>\<open>StartClient\<close> returns the error of the allocation
  and the repository is as it was: no client has been saved, and \<^verbatim>\<open>GetByID\<close> answers
  as before for every id. More generally, the repository is unchanged after every
  \<^verbatim>\<open>StartClient\<close> that returns an error.
\<close>

theorem StartClient_allocation_failure_saves_nothing:
  "(GetByID (repo s) clientID = Inr oldClient \<and>
    mergeOldTunnels clientID oldClient (Remotes req) = Inr remotes \<and>
    (authMultiuseCreds \<or> \<not> isClientAuthIDInUse s clientAuthID clientID) \<and>
    SplitHostPort d (RemoteAddr sshConn) = Inr (clientHost, port) \<and>
    fst (startClientTunnels d
           (case oldClient of
              None \<Rightarrow> newClient clientAuthID clientID sshConn req clientHost
            | Some oc \<Rightarrow> (newClient clientAuthID clientID sshConn req clientHost)
                           \<lparr>UpdatesStatus := UpdatesStatus oc\<rparr>)
           remotes s) = Inl err \<longrightarrow>
      fst (StartClient d clientAuthID clientID sshConn authMultiuseCreds req s) = Inl err \<and>
      repo (snd (StartClient d clientAuthID clientID sshConn authMultiuseCreds req s)) = repo s \<and>
      GetByID (repo (snd (StartClient d clientAuthID clientID sshConn authMultiuseCreds req s))) anyID
        = GetByID (repo s) anyID) \<and>
   (fst (StartClient d clientAuthID clientID sshConn authMultiuseCreds req s) = Inl err \<longrightarrow>
      repo (snd (StartClient d clientAuthID clientID sshConn authMultiuseCreds req s)) = repo s)"
proof -
  let ?r = "StartClient d clientAuthID clientID sshConn authMultiuseCreds req s"
  have gen: "repo (snd ?r) = repo s" if "fst ?r = Inl err"
  proof -
    from that have "?r = (Inl err, snd ?r)" by (metis prod.collapse)
    then show ?thesis by (rule StartClient_error_repo)
  qed
  have spec: "fst ?r = Inl err"
    if h1: "GetByID (repo s) clientID = Inr oldClient"
      and h2: "mergeOldTunnels clientID oldClient (Remotes req) = Inr remotes"
      and h3: "authMultiuseCreds \<or> \<not> isClientAuthIDInUse s clientAuthID clientID"
      and h4: "SplitHostPort d (RemoteAddr sshConn) = Inr (clientHost, port)"
      and h5: "fst (startClientTunnels d
           (case oldClient of
              None \<Rightarrow> newClient clientAuthID clientID sshConn req clientHost
            | Some oc \<Rightarrow> (newClient clientAuthID clientID sshConn req clientHost)
                           \<lparr>UpdatesStatus := UpdatesStatus oc\<rparr>)
           remotes s) = Inl err"
  proof -
    obtain c1 s1 where "startClientTunnels d
           (case oldClient of
              None \<Rightarrow> newClient clientAuthID clientID sshConn req clientHost
            | Some oc \<Rightarrow> (newClient clientAuthID clientID sshConn req clientHost)
                           \<lparr>UpdatesStatus := UpdatesStatus oc\<rparr>)
           remotes s = (Inl err, c1, s1)"
      using h5 by (metis prod.collapse)
    with h1 h2 h3 h4 have "?r = (Inl err, s1)" by (intro StartClient_allocation_error)
    then show ?thesis by simp
  qed
  show ?thesis using gen spec by metis
qed

text \<open>
  A registration with two remotes, the second on a busy port: the conflict of the port comes
  back, and the registry still holds client B only.
\<close>

theorem StartClient_allocation_failure_saves_nothing_witness:
  "fst (StartClient ex_deps ''authX'' ''A'' (ex_conn None) False
          (ex_req [ex_remote ''8080'' ''22'', ex_remote ''8081'' ''3389''])
          (ex_state [ex_client ''B'' ''authY'' None []] (Some 60)))
     = Inl (APIError 409 (PortInUse 8081) None) \<and>
   repo (snd (StartClient ex_deps ''authX'' ''A'' (ex_conn None) False
          (ex_req [ex_remote ''8080'' ''22'', ex_remote ''8081'' ''3389''])
          (ex_state [ex_client ''B'' ''authY'' None []] (Some 60))))
     = ex_repo [ex_client ''B'' ''authY'' None []] (Some 60) \<and>
   GetByID (repo (snd (StartClient ex_deps ''authX'' ''A'' (ex_conn None) False
          (ex_req [ex_remote ''8080'' ''22'', ex_remote ''8081'' ''3389''])
          (ex_state [ex_client ''B'' ''authY'' None []] (Some 60))))) ''A''
     = Inr None"
proof -
  let ?s = "ex_state [ex_client ''B'' ''authY'' None []] (Some 60)"
  let ?rs = "[ex_remote ''8080'' ''22'', ex_remote ''8081'' ''3389'']"
  let ?e = "APIError 409 (PortInUse 8081) None"
  have h: "GetByID (repo ?s) ''A'' = Inr None \<and>
      mergeOldTunnels ''A'' None (Remotes (ex_req ?rs)) = Inr ?rs \<and>
      (False \<or> \<not> isClientAuthIDInUse ?s ''authX'' ''A'') \<and>
      SplitHostPort ex_deps (RemoteAddr (ex_conn None)) = Inr (''10.0.0.5'', ''50000'') \<and>
      fst (startClientTunnels ex_deps
             (case None of
                None \<Rightarrow> newClient ''authX'' ''A'' (ex_conn None) (ex_req ?rs) ''10.0.0.5''
              | Some oc \<Rightarrow> (newClient ''authX'' ''A'' (ex_conn None) (ex_req ?rs) ''10.0.0.5'')
                             \<lparr>UpdatesStatus := UpdatesStatus oc\<rparr>)
             ?rs ?s) = Inl ?e"
    by code_simp
  have r: "repo ?s = ex_repo [ex_client ''B'' ''authY'' None []] (Some 60)"
    by (simp add: ex_state_def)
  have g: "GetByID (ex_repo [ex_client ''B'' ''authY'' None []] (Some 60)) ''A'' = Inr None"
    using h unfolding r by (rule conjunct1)
  from StartClient_allocation_failure_saves_nothing [where s = ?s and clientID = "''A''"
      and oldClient = None and req = "ex_req ?rs" and remotes = ?rs
      and authMultiuseCreds = False and clientAuthID = "''authX''" and d = ex_deps
      and sshConn = "ex_conn None" and clientHost = "''10.0.0.5''" and port = "''50000''"
      and err = ?e and anyID = "''A''", THEN conjunct1, rule_format, OF h]
  show ?thesis
    unfolding r g .
qed

text \<open>
  Claim C3. While the repository holds a record under a client id that is still connected
  (\<^verbatim>\<open>DisconnectedAt == nil\<close>), every \<^verbatim>\<open>StartClient\<close> with that id fails with the error
  "client id is already in use" and leaves the whole state as it was. Hence after a
  registration has succeeded, any further registration under the same id on the state it
  left fails: only the first one succeeds while it remains connected.
\<close>

theorem StartClient_id_in_use:
  "(GetByID (repo s) clientID = Inr (Some oc) \<and> DisconnectedAt oc = None \<longrightarrow>
      StartClient d a clientID k m req s = (Inl (ErrClientIDInUse clientID), s)) \<and>
   (StartClient d a clientID k m req s = (Inr c, s') \<longrightarrow>
      StartClient d a2 clientID k2 m2 req2 s' = (Inl (ErrClientIDInUse clientID), s'))"
proof (intro conjI impI)
  assume "GetByID (repo s) clientID = Inr (Some oc) \<and> DisconnectedAt oc = None"
  then show "StartClient d a clientID k m req s = (Inl (ErrClientIDInUse clientID), s)"
    by (simp add: StartClient_def mergeOldTunnels_def)
next
  assume ok: "StartClient d a clientID k m req s = (Inr c, s')"
  have "GetByID (repo s') clientID = Inr (Some c) \<and> DisconnectedAt c = None"
  proof -
    from ok obtain oldc where g: "GetByID (repo s) clientID = Inr oldc"
      by (cases "GetByID (repo s) clientID") (auto simp: StartClient_def)
    then have gf: "get_failure (repo s) = None" by (rule GetByID_ok)
    from ok g obtain rs where mg: "mergeOldTunnels clientID oldc (Remotes req) = Inr rs"
      by (cases "mergeOldTunnels clientID oldc (Remotes req)") (auto simp: StartClient_def)
    from ok g mg obtain host port where sp: "SplitHostPort d (RemoteAddr k) = Inr (host, port)"
      by (cases "SplitHostPort d (RemoteAddr k)") (auto simp: StartClient_def split: if_splits)
    define c0 where "c0 = (case oldc of None \<Rightarrow> newClient a clientID k req host
        | Some oc \<Rightarrow> (newClient a clientID k req host)\<lparr>UpdatesStatus := UpdatesStatus oc\<rparr>)"
    obtain res c1 s1 where st: "startClientTunnels d c0 rs s = (res, c1, s1)"
      by (cases "startClientTunnels d c0 rs s") auto
    from ok g mg sp st have sv: "Save (repo s1) c1 = (None, repo s') \<and> c = c1"
      by (auto simp: StartClient_def Let_def c0_def split: if_splits sum.splits prod.splits option.splits)
    from st have r1: "repo s1 = repo s" by (rule startClientTunnels_repo)
    from st obtain new where c1: "c1 = c0\<lparr>Tunnels := Tunnels c0 @ new\<rparr>"
      by (blast dest: startClientTunnels_client)
    have c0id: "ID c0 = clientID \<and> DisconnectedAt c0 = None"
      by (simp add: c0_def newClient_def split: option.splits)
    from sv r1 have rs': "repo s' = snd (Save (repo s) c1)" and sf: "save_failure (repo s) = None"
      by (auto simp: Save_def split: option.splits)
    from c1 c0id have "ID c1 = clientID" by simp
    with GetByID_Save [OF sf gf, of c1] rs' have "GetByID (repo s') clientID = Inr (Some c1)"
      by simp
    with sv c1 c0id show ?thesis by simp
  qed
  then show "StartClient d a2 clientID k2 m2 req2 s' = (Inl (ErrClientIDInUse clientID), s')"
    by (simp add: StartClient_def mergeOldTunnels_def)
qed

text \<open>
  The theorem at work: a registration under an id that is connected is refused, and a
  registration that succeeded on the empty registry refuses the next one.
\<close>

theorem StartClient_id_in_use_witness:
  "StartClient ex_deps ''authY'' ''A'' (ex_conn None) True (ex_req [])
       (ex_state [ex_client ''A'' ''authX'' None []] (Some 60))
     = (Inl (ErrClientIDInUse ''A''), ex_state [ex_client ''A'' ''authX'' None []] (Some 60)) \<and>
   fst (StartClient ex_deps ''authX'' ''A'' (ex_conn None) False (ex_req [ex_remote ''8080'' ''22''])
          (ex_state [] (Some 60))) \<noteq> Inl (ErrClientIDInUse ''A'') \<and>
   fst (StartClient ex_deps ''authY'' ''A'' (ex_conn None) True (ex_req [])
          (snd (StartClient ex_deps ''authX'' ''A'' (ex_conn None) False
                  (ex_req [ex_remote ''8080'' ''22'']) (ex_state [] (Some 60)))))
     = Inl (ErrClientIDInUse ''A'')"
proof -
  let ?s1 = "ex_state [ex_client ''A'' ''authX'' None []] (Some 60)"
  let ?first = "StartClient ex_deps ''authX'' ''A'' (ex_conn None) False
                  (ex_req [ex_remote ''8080'' ''22'']) (ex_state [] (Some 60))"
  have h: "GetByID (repo ?s1) ''A'' = Inr (Some (ex_client ''A'' ''authX'' None [])) \<and>
           DisconnectedAt (ex_client ''A'' ''authX'' None []) = None"
    by code_simp
  have ok: "isl (fst ?first) = False"
    by code_simp
  then obtain c where c: "fst ?first = Inr c"
    by (cases "fst ?first") auto
  then have f: "?first = (Inr c, snd ?first)"
    by (metis prod.collapse)
  from StartClient_id_in_use [of ?s1 "''A''" "ex_client ''A'' ''authX'' None []" ex_deps
      "''authY''" "ex_conn None" True "ex_req []"] h
  have one: "StartClient ex_deps ''authY'' ''A'' (ex_conn None) True (ex_req []) ?s1
               = (Inl (ErrClientIDInUse ''A''), ?s1)"
    by blast
  from StartClient_id_in_use [of "ex_state [] (Some 60)" "''A''" _ ex_deps "''authX''"
      "ex_conn None" False "ex_req [ex_remote ''8080'' ''22'']" c "snd ?first" "''authY''"
      "ex_conn None" True "ex_req []"] f
  have two: "fst (StartClient ex_deps ''authY'' ''A'' (ex_conn None) True (ex_req []) (snd ?first))
               = Inl (ErrClientIDInUse ''A'')"
    by simp
  from one two c show ?thesis by simp
qed

lemma startTunnelFor_serves:
  "startTunnelFor d r c pd = Inr (t, c', pd') \<Longrightarrow> serves t r"
  by (auto simp: startTunnelFor_def StartTunnel_def serves_def Let_def IsLocalSpecified_def
      split: if_splits sum.splits option.splits prod.splits)

lemma startTunnelsLoop_serves:
  "startTunnelsLoop d rs ts c pd = (Inr ts', c', pd') \<Longrightarrow>
     \<exists>new. ts' = ts @ new \<and> Tunnels c' = Tunnels c @ new \<and> list_all2 (\<lambda>r t. serves t r) rs new"
proof (induction rs arbitrary: ts c pd)
  case Nil
  then show ?case by simp
next
  case (Cons r rs)
  show ?case
  proof (cases "startTunnelFor d r c pd")
    case (Inl e)
    with Cons.prems show ?thesis by simp
  next
    case (Inr x)
    obtain t c1 pd1 where x: "x = (t, c1, pd1)" by (cases x) auto
    with Inr Cons.prems have "startTunnelsLoop d rs (ts @ [t]) c1 pd1 = (Inr ts', c', pd')" by simp
    from Cons.IH [OF this] obtain new where n: "ts' = (ts @ [t]) @ new"
      "Tunnels c' = Tunnels c1 @ new" "list_all2 (\<lambda>r t. serves t r) rs new" by blast
    from Inr x have c1: "c1 = c\<lparr>Tunnels := Tunnels c @ [t]\<rparr>" and sv: "serves t r"
      by (simp_all add: startTunnelFor_client startTunnelFor_serves)
    from n c1 sv show ?thesis by (intro exI [of _ "t # new"]) simp
  qed
qed

lemma startClientTunnels_serves:
  assumes "startClientTunnels d c rs s = (Inr ts, c', s')"
  shows "Tunnels c' = Tunnels c @ ts \<and> list_all2 (\<lambda>r t. serves t r) rs ts"
proof -
  from assms obtain pd pd' where "startTunnelsLoop d rs [] c pd = (Inr ts, c', pd')"
    by (auto simp: startClientTunnels_def split: sum.splits prod.splits)
  from startTunnelsLoop_serves [OF this] show ?thesis by auto
qed

lemma StartClient_tunnels:
  assumes g: "GetByID (repo s) cid = Inr oldc"
    and mg: "mergeOldTunnels cid oldc (Remotes req) = Inr rs"
    and ok: "StartClient d a cid k m req s = (Inr c, s')"
  shows "list_all2 (\<lambda>r t. serves t r) rs (Tunnels c) \<and> GetByID (repo s') cid = Inr (Some c)"
proof -
  from g have gf: "get_failure (repo s) = None" by (rule GetByID_ok)
  from ok g mg obtain host port where sp: "SplitHostPort d (RemoteAddr k) = Inr (host, port)"
    by (cases "SplitHostPort d (RemoteAddr k)") (auto simp: StartClient_def split: if_splits)
  define c0 where "c0 = (case oldc of None \<Rightarrow> newClient a cid k req host
      | Some oc \<Rightarrow> (newClient a cid k req host)\<lparr>UpdatesStatus := UpdatesStatus oc\<rparr>)"
  obtain res c1 s1 where st: "startClientTunnels d c0 rs s = (res, c1, s1)"
    by (cases "startClientTunnels d c0 rs s") auto
  from ok g mg sp st obtain ts where res: "res = Inr ts"
    and sv: "Save (repo s1) c1 = (None, repo s')" and cc: "c = c1"
    by (auto simp: StartClient_def Let_def c0_def split: if_splits sum.splits prod.splits option.splits)
  have c0: "Tunnels c0 = [] \<and> ID c0 = cid"
    by (simp add: c0_def newClient_def split: option.splits)
  from st res have "Tunnels c1 = Tunnels c0 @ ts \<and> list_all2 (\<lambda>r t. serves t r) rs ts"
    by (intro startClientTunnels_serves) simp
  with c0 cc have one: "list_all2 (\<lambda>r t. serves t r) rs (Tunnels c)" by simp
  from st have r1: "repo s1 = repo s" by (rule startClientTunnels_repo)
  from st obtain new where "c1 = c0\<lparr>Tunnels := Tunnels c0 @ new\<rparr>"
    by (blast dest: startClientTunnels_client)
  with c0 have id1: "ID c1 = cid" by simp
  from sv r1 have rs': "repo s' = snd (Save (repo s) c1)" and sf: "save_failure (repo s) = None"
    by (auto simp: Save_def split: option.splits)
  with GetByID_Save [OF sf gf, of c1] id1 cc have "GetByID (repo s') cid = Inr (Some c)"
    by simp
  with one show ?thesis by simp
qed

lemma list_all2_serves_ex:
  "list_all2 (\<lambda>r t. serves t r) rs ts \<Longrightarrow> r \<in> set rs \<Longrightarrow> \<exists>t \<in> set ts. serves t r"
  by (induction rs ts rule: list_all2_induct) auto

text \<open>
  Claim C4. When the repository holds a disconnected record under the client id and
  \<^verbatim>\<open>StartClient\<close> succeeds, the tunnels of the new client are, in order, one for every
  requested remote and then one for every remote of the old tunnels that no requested
  remote duplicates. So every requested remote has a tunnel, every old remote that is not
  duplicated has a re-established tunnel, and the client with these tunnels is what
  \<^verbatim>\<open>GetByID\<close> returns afterwards.
\<close>

theorem StartClient_reestablishes_old_tunnels:
  "GetByID (repo s) clientID = Inr (Some oldClient) \<and> DisconnectedAt oldClient \<noteq> None \<and>
   StartClient d clientAuthID clientID sshConn authMultiuseCreds req s = (Inr client, s') \<longrightarrow>
     list_all2 (\<lambda>r t. serves t r)
       (Remotes req @ GetTunnelsToReestablish (getRemotes (Tunnels oldClient)) (Remotes req))
       (Tunnels client) \<and>
     (\<forall>r \<in> set (Remotes req). \<exists>t \<in> set (Tunnels client). serves t r) \<and>
     (\<forall>old \<in> set (Tunnels oldClient).
        \<not> list_ex (same_spec (Remote old)) (Remotes req) \<longrightarrow>
          (\<exists>t \<in> set (Tunnels client). serves t (Remote old))) \<and>
     GetByID (repo s') clientID = Inr (Some client)"
proof (intro impI)
  assume a: "GetByID (repo s) clientID = Inr (Some oldClient) \<and> DisconnectedAt oldClient \<noteq> None \<and>
   StartClient d clientAuthID clientID sshConn authMultiuseCreds req s = (Inr client, s')"
  let ?re = "GetTunnelsToReestablish (getRemotes (Tunnels oldClient)) (Remotes req)"
  from a have mg: "mergeOldTunnels clientID (Some oldClient) (Remotes req) = Inr (Remotes req @ ?re)"
    by (auto simp: mergeOldTunnels_def Let_def)
  from a mg have t: "list_all2 (\<lambda>r t. serves t r) (Remotes req @ ?re) (Tunnels client)"
    and g: "GetByID (repo s') clientID = Inr (Some client)"
    using StartClient_tunnels [of s clientID "Some oldClient" req "Remotes req @ ?re"] by blast+
  have new: "\<forall>r \<in> set (Remotes req). \<exists>t \<in> set (Tunnels client). serves t r"
    using list_all2_serves_ex [OF t] by simp
  have old: "\<forall>old \<in> set (Tunnels oldClient).
        \<not> list_ex (same_spec (Remote old)) (Remotes req) \<longrightarrow>
          (\<exists>t \<in> set (Tunnels client). serves t (Remote old))"
  proof (intro ballI impI)
    fix old assume "old \<in> set (Tunnels oldClient)"
      and "\<not> list_ex (same_spec (Remote old)) (Remotes req)"
    then have "Remote old \<in> set ?re"
      by (auto simp: GetTunnelsToReestablish_def getRemotes_def)
    then show "\<exists>t \<in> set (Tunnels client). serves t (Remote old)"
      using list_all2_serves_ex [OF t] by simp
  qed
  from t new old g show "list_all2 (\<lambda>r t. serves t r) (Remotes req @ ?re) (Tunnels client) \<and>
     (\<forall>r \<in> set (Remotes req). \<exists>t \<in> set (Tunnels client). serves t r) \<and>
     (\<forall>old \<in> set (Tunnels oldClient).
        \<not> list_ex (same_spec (Remote old)) (Remotes req) \<longrightarrow>
          (\<exists>t \<in> set (Tunnels client). serves t (Remote old))) \<and>
     GetByID (repo s') clientID = Inr (Some client)"
    by blast
qed

text \<open>
  The reconnect of section 8: client A was disconnected while holding a tunnel on local
  port 8080 and comes back asking for another remote on port 9000. Both have a tunnel.
\<close>

theorem StartClient_reestablishes_old_tunnels_witness:
  "(\<exists>t \<in> set (Tunnels (projr (fst (StartClient ex_deps ''authX'' ''A'' (ex_conn None) False
        (ex_req [ex_remote ''9000'' ''3389''])
        (ex_state [ex_client ''A'' ''authX'' (Some 5)
                     [\<lparr>Remote = ex_remote ''8080'' ''22'', TunnelACL = None\<rparr>]] (Some 60)))))).
      serves t (ex_remote ''8080'' ''22'')) \<and>
   (\<exists>t \<in> set (Tunnels (projr (fst (StartClient ex_deps ''authX'' ''A'' (ex_conn None) False
        (ex_req [ex_remote ''9000'' ''3389''])
        (ex_state [ex_client ''A'' ''authX'' (Some 5)
                     [\<lparr>Remote = ex_remote ''8080'' ''22'', TunnelACL = None\<rparr>]] (Some 60)))))).
      serves t (ex_remote ''9000'' ''3389'')) \<and>
   map Remote (Tunnels (projr (fst (StartClient ex_deps ''authX'' ''A'' (ex_conn None) False
        (ex_req [ex_remote ''9000'' ''3389''])
        (ex_state [ex_client ''A'' ''authX'' (Some 5)
                     [\<lparr>Remote = ex_remote ''8080'' ''22'', TunnelACL = None\<rparr>]] (Some 60))))))
     = [ex_remote ''9000'' ''3389'', ex_remote ''8080'' ''22'']"
proof -
  let ?old = "\<lparr>Remote = ex_remote ''8080'' ''22'', TunnelACL = None\<rparr>"
  let ?oc = "ex_client ''A'' ''authX'' (Some 5) [?old]"
  let ?s = "ex_state [?oc] (Some 60)"
  let ?req = "ex_req [ex_remote ''9000'' ''3389'']"
  let ?X = "StartClient ex_deps ''authX'' ''A'' (ex_conn None) False ?req ?s"
  have "isl (fst ?X) = False" by code_simp
  then have "fst ?X = Inr (projr (fst ?X))" by (cases "fst ?X") auto
  then have x: "?X = (Inr (projr (fst ?X)), snd ?X)" by (metis prod.collapse)
  have g: "GetByID (repo ?s) ''A'' = Inr (Some ?oc)" by code_simp
  have dc: "DisconnectedAt ?oc \<noteq> None" by code_simp
  have rq: "Remotes ?req = [ex_remote ''9000'' ''3389'']" by (simp add: ex_req_def)
  have ot: "Tunnels ?oc = [?old]" by (simp add: ex_client_def)
  have nd: "\<not> list_ex (same_spec (Remote ?old)) (Remotes ?req)" by code_simp
  from StartClient_reestablishes_old_tunnels [where s = ?s and clientID = "''A''"
      and oldClient = ?oc and d = ex_deps and clientAuthID = "''authX''"
      and sshConn = "ex_conn None" and authMultiuseCreds = False and req = ?req
      and client = "projr (fst ?X)" and s' = "snd ?X"] g dc x
  have all: "(\<forall>r \<in> set (Remotes ?req). \<exists>t \<in> set (Tunnels (projr (fst ?X))). serves t r) \<and>
     (\<forall>old \<in> set (Tunnels ?oc).
        \<not> list_ex (same_spec (Remote old)) (Remotes ?req) \<longrightarrow>
          (\<exists>t \<in> set (Tunnels (projr (fst ?X))). serves t (Remote old)))"
    by blast
  from all ot nd have one: "\<exists>t \<in> set (Tunnels (projr (fst ?X))). serves t (Remote ?old)"
    by simp
  then have one': "\<exists>t \<in> set (Tunnels (projr (fst ?X))). serves t (ex_remote ''8080'' ''22'')"
    by simp
  from all rq have two: "\<exists>t \<in> set (Tunnels (projr (fst ?X))). serves t (ex_remote ''9000'' ''3389'')"
    by simp
  have three: "map Remote (Tunnels (projr (fst ?X)))
     = [ex_remote ''9000'' ''3389'', ex_remote ''8080'' ''22'']"
    by code_simp
  from one' two three show ?thesis by blast
qed

text \<open>
  Claim C5. \<^verbatim>\<open>Terminate\<close> follows the retention policy. With \<^verbatim>\<open>KeepLostClients\<close> nil the
  record is deleted and \<^verbatim>\<open>GetByID\<close> finds no client afterwards. With a retention
  duration, and a record of the client in the repository, the record that \<^verbatim>\<open>GetByID\<close>
  returns afterwards is the client with \<^verbatim>\<open>DisconnectedAt\<close> set to the current time. In
  both cases the repository operations are taken not to fail.
\<close>

theorem Terminate_retention:
  "(KeepLostClients (repo s) = None \<and> delete_failure (repo s) = None \<and>
    get_failure (repo s) = None \<longrightarrow>
      fst (Terminate now c s) = None \<and>
      GetByID (repo (snd (snd (Terminate now c s)))) (ID c) = Inr None) \<and>
   (KeepLostClients (repo s) = Some keep \<and> GetByID (repo s) (ID c) = Inr (Some existing) \<and>
    save_failure (repo s) = None \<longrightarrow>
      fst (Terminate now c s) = None \<and>
      GetByID (repo (snd (snd (Terminate now c s)))) (ID c)
        = Inr (Some (c\<lparr>DisconnectedAt := Some now\<rparr>)) \<and>
      DisconnectedAt (c\<lparr>DisconnectedAt := Some now\<rparr>) \<noteq> None)"
proof (intro conjI impI)
  assume a: "KeepLostClients (repo s) = None \<and> delete_failure (repo s) = None \<and>
    get_failure (repo s) = None"
  then show "fst (Terminate now c s) = None"
    by (simp add: Terminate_def Delete_def)
  from a have "repo (snd (snd (Terminate now c s))) = snd (Delete (repo s) c)"
    by (simp add: Terminate_def split: prod.splits)
  with a show "GetByID (repo (snd (snd (Terminate now c s)))) (ID c) = Inr None"
    by (simp add: GetByID_Delete)
next
  assume a: "KeepLostClients (repo s) = Some keep \<and> GetByID (repo s) (ID c) = Inr (Some existing) \<and>
    save_failure (repo s) = None"
  then have gf: "get_failure (repo s) = None" by (blast dest: GetByID_ok)
  from a show "fst (Terminate now c s) = None"
    by (simp add: Terminate_def Save_def Let_def)
  from a have "repo (snd (snd (Terminate now c s)))
      = snd (Save (repo s) (c\<lparr>DisconnectedAt := Some now\<rparr>))"
    by (simp add: Terminate_def Let_def split: prod.splits)
  with a gf GetByID_Save [of "repo s" "c\<lparr>DisconnectedAt := Some now\<rparr>"]
  show "GetByID (repo (snd (snd (Terminate now c s)))) (ID c)
        = Inr (Some (c\<lparr>DisconnectedAt := Some now\<rparr>))"
    by simp
  show "DisconnectedAt (c\<lparr>DisconnectedAt := Some now\<rparr>) \<noteq> None" by simp
qed

text \<open>
  Both policies on a registry of two clients.
\<close>

theorem Terminate_retention_witness:
  "GetByID (repo (snd (snd (Terminate 7 (ex_client ''A'' ''authX'' None [])
       (ex_state [ex_client ''A'' ''authX'' None [], ex_client ''B'' ''authY'' None []] None))))) ''A''
     = Inr None \<and>
   GetByID (repo (snd (snd (Terminate 7 (ex_client ''A'' ''authX'' None [])
       (ex_state [ex_client ''A'' ''authX'' None [], ex_client ''B'' ''authY'' None []] (Some 60)))))) ''A''
     = Inr (Some (ex_client ''A'' ''authX'' (Some 7) []))"
proof -
  let ?c = "ex_client ''A'' ''authX'' None []"
  let ?cs = "[ex_client ''A'' ''authX'' None [], ex_client ''B'' ''authY'' None []]"
  have h1: "KeepLostClients (repo (ex_state ?cs None)) = None \<and>
            delete_failure (repo (ex_state ?cs None)) = None \<and>
            get_failure (repo (ex_state ?cs None)) = None"
    by code_simp
  have h2: "KeepLostClients (repo (ex_state ?cs (Some 60))) = Some 60 \<and>
            GetByID (repo (ex_state ?cs (Some 60))) (ID ?c) = Inr (Some ?c) \<and>
            save_failure (repo (ex_state ?cs (Some 60))) = None"
    by code_simp
  have i: "ID ?c = ''A''" by code_simp
  have u: "?c\<lparr>DisconnectedAt := Some 7\<rparr> = ex_client ''A'' ''authX'' (Some 7) []" by code_simp
  from Terminate_retention [of "ex_state ?cs None" 7 ?c] h1 i
  have one: "GetByID (repo (snd (snd (Terminate 7 ?c (ex_state ?cs None))))) ''A'' = Inr None"
    by simp
  from Terminate_retention [of "ex_state ?cs (Some 60)" 7 ?c 60 ?c] h2 i u
  have two: "GetByID (repo (snd (snd (Terminate 7 ?c (ex_state ?cs (Some 60)))))) ''A''
     = Inr (Some (ex_client ''A'' ''authX'' (Some 7) []))"
    by simp
  from one two show ?thesis by simp
qed

text \<open>
  Claim C6. With a retention duration and no record under the id of the client,
  \<^verbatim>\<open>Terminate\<close> returns no error and leaves the state as it is, so \<^verbatim>\<open>GetByID\<close> still
  finds no client. This is the case after a \<^verbatim>\<open>ForceDelete\<close> of the client that returned
  no error.
\<close>

theorem Terminate_after_force_delete:
  "(KeepLostClients (repo s) = Some keep \<and> GetByID (repo s) (ID c) = Inr None \<longrightarrow>
      fst (Terminate now c s) = None \<and>
      snd (snd (Terminate now c s)) = s \<and>
      GetByID (repo (snd (snd (Terminate now c s)))) (ID c) = Inr None) \<and>
   (KeepLostClients (repo s0) = Some keep \<and> get_failure (repo s0) = None \<and>
    ForceDelete c s0 = (None, s1) \<longrightarrow>
      fst (Terminate now c s1) = None \<and>
      snd (snd (Terminate now c s1)) = s1 \<and>
      GetByID (repo (snd (snd (Terminate now c s1)))) (ID c) = Inr None)"
proof -
  have A: "fst (Terminate now c s) = None \<and> snd (snd (Terminate now c s)) = s \<and>
      GetByID (repo (snd (snd (Terminate now c s)))) (ID c) = Inr None"
    if "KeepLostClients (repo s) = Some keep" "GetByID (repo s) (ID c) = Inr None" for s
    using that by (simp add: Terminate_def Let_def)
  have B: "KeepLostClients (repo s1) = Some keep \<and> GetByID (repo s1) (ID c) = Inr None"
    if k: "KeepLostClients (repo s0) = Some keep" and g: "get_failure (repo s0) = None"
      and f: "ForceDelete c s0 = (None, s1)"
  proof -
    obtain e sc where cl: "(if DisconnectedAt c = None then Close c s0 else (None, s0)) = (e, sc)"
      by (cases "if DisconnectedAt c = None then Close c s0 else (None, s0)") auto
    then have rsc: "repo sc = repo s0"
      by (auto simp: Close_def split: if_splits option.splits)
    from f cl have d: "Delete (repo sc) c = (None, repo s1)"
      by (auto simp: ForceDelete_def split: option.splits prod.splits)
    then have df: "delete_failure (repo s0) = None" and r1: "repo s1 = snd (Delete (repo s0) c)"
      using rsc by (auto simp: Delete_def split: option.splits)
    from r1 df k have "KeepLostClients (repo s1) = Some keep" by (simp add: Delete_def)
    moreover from r1 df g have "GetByID (repo s1) (ID c) = Inr None" by (simp add: GetByID_Delete)
    ultimately show ?thesis by simp
  qed
  show ?thesis using A B by blast
qed

text \<open>
  Claim C10. With a retention duration and no record under the id of the client,
  \<^verbatim>\<open>Terminate\<close> still writes the current time to \<^verbatim>\<open>DisconnectedAt\<close> of the client it was
  given: it returns no error, the client with only that field changed, and the state
  unchanged.
\<close>

theorem Terminate_sets_DisconnectedAt_when_absent:
  "KeepLostClients (repo s) = Some keep \<Longrightarrow> GetByID (repo s) (ID c) = Inr None \<Longrightarrow>
     Terminate now c s = (None, c\<lparr>DisconnectedAt := Some now\<rparr>, s)"
  by (simp add: Terminate_def Let_def)

text \<open>
  A client is force-deleted and then terminated: no error, and no record comes back.
\<close>

theorem Terminate_after_force_delete_witness:
  "ForceDelete (ex_client ''A'' ''authX'' None [])
       (ex_state [ex_client ''A'' ''authX'' None []] (Some 60))
     = (None, (ex_state [] (Some 60))\<lparr>closed_conns := [ex_conn None]\<rparr>) \<and>
   fst (Terminate 7 (ex_client ''A'' ''authX'' None [])
          ((ex_state [] (Some 60))\<lparr>closed_conns := [ex_conn None]\<rparr>)) = None \<and>
   GetByID (repo (snd (snd (Terminate 7 (ex_client ''A'' ''authX'' None [])
          ((ex_state [] (Some 60))\<lparr>closed_conns := [ex_conn None]\<rparr>))))) ''A'' = Inr None"
proof -
  let ?c = "ex_client ''A'' ''authX'' None []"
  let ?s0 = "ex_state [?c] (Some 60)"
  let ?s1 = "(ex_state [] (Some 60))\<lparr>closed_conns := [ex_conn None]\<rparr>"
  have h: "KeepLostClients (repo ?s0) = Some 60 \<and> get_failure (repo ?s0) = None \<and>
           ForceDelete ?c ?s0 = (None, ?s1)"
    by code_simp
  have i: "ID ?c = ''A''" by code_simp
  from Terminate_after_force_delete [of ?s1 60 ?c 7 ?s0 ?s1, THEN conjunct2] h
  have t: "fst (Terminate 7 ?c ?s1) = None \<and> snd (snd (Terminate 7 ?c ?s1)) = ?s1 \<and>
           GetByID (repo (snd (snd (Terminate 7 ?c ?s1)))) (ID ?c) = Inr None"
    by blast
  from t have t1: "fst (Terminate 7 ?c ?s1) = None"
    by (rule conjunct1)
  from t have "GetByID (repo (snd (snd (Terminate 7 ?c ?s1)))) (ID ?c) = Inr None"
    by (rule conjunct2 [THEN conjunct2])
  with i have t3: "GetByID (repo (snd (snd (Terminate 7 ?c ?s1)))) ''A'' = Inr None"
    by simp
  from h have v: "ForceDelete ?c ?s0 = (None, ?s1)"
    by (rule conjunct2 [THEN conjunct2])
  from v t1 t3 show ?thesis by blast
qed

text \<open>
  Terminating a client that has no record in a registry that holds another client.
\<close>

theorem Terminate_sets_DisconnectedAt_when_absent_witness:
  "Terminate 7 (ex_client ''A'' ''authX'' None []) (ex_state [ex_client ''B'' ''authY'' None []] (Some 60))
     = (None, ex_client ''A'' ''authX'' (Some 7) [], ex_state [ex_client ''B'' ''authY'' None []] (Some 60))"
proof -
  let ?c = "ex_client ''A'' ''authX'' None []"
  let ?s = "ex_state [ex_client ''B'' ''authY'' None []] (Some 60)"
  have h1: "KeepLostClients (repo ?s) = Some 60" by code_simp
  have h2: "GetByID (repo ?s) (ID ?c) = Inr None" by code_simp
  have u: "?c\<lparr>DisconnectedAt := Some 7\<rparr> = ex_client ''A'' ''authX'' (Some 7) []" by code_simp
  from Terminate_sets_DisconnectedAt_when_absent [OF h1 h2, of 7] u show ?thesis by simp
qed

text \<open>
  Claim C7 says that \<^verbatim>\<open>ForceDelete\<close> always deletes the record. It does not when the
  client is connected and closing its connection fails: lines 408 to 410 return the error
  of \<^verbatim>\<open>Close\<close> before \<^verbatim>\<open>Delete\<close> is reached, and the record stays.
\<close>

theorem ForceDelete_close_failure_counterexample:
  "DisconnectedAt ((ex_client ''A'' ''authX'' None [])\<lparr>Connection := Some (ex_conn (Some ''EOF''))\<rparr>) = None \<and>
   fst (ForceDelete ((ex_client ''A'' ''authX'' None [])\<lparr>Connection := Some (ex_conn (Some ''EOF''))\<rparr>)
     (ex_state [(ex_client ''A'' ''authX'' None [])\<lparr>Connection := Some (ex_conn (Some ''EOF''))\<rparr>] None))
     = Some (Collab ''EOF'') \<and>
   GetByID (repo (snd (ForceDelete ((ex_client ''A'' ''authX'' None [])\<lparr>Connection := Some (ex_conn (Some ''EOF''))\<rparr>)
     (ex_state [(ex_client ''A'' ''authX'' None [])\<lparr>Connection := Some (ex_conn (Some ''EOF''))\<rparr>] None)))) ''A''
     = Inr (Some ((ex_client ''A'' ''authX'' None [])\<lparr>Connection := Some (ex_conn (Some ''EOF''))\<rparr>))"
  by code_simp

text \<open>
  Claim C7, amended. \<^verbatim>\<open>ForceDelete\<close> closes the connection of a client that is still
  connected, and of no other. If that close fails, its error is returned and nothing is
  deleted. Otherwise the record is deleted whatever the retention setting and the
  connection state are: provided the repository does not fail, no error is returned and
  \<^verbatim>\<open>GetByID\<close> finds no client afterwards (the retention setting is not read and not
  changed).
\<close>

theorem ForceDelete_closes_then_deletes:
  "(DisconnectedAt c = None \<and> Connection c = Some k \<longrightarrow>
      closed_conns (snd (ForceDelete c s)) = closed_conns s @ [k]) \<and>
   (DisconnectedAt c = None \<and> Connection c = Some k \<and> CloseError k = Some e \<longrightarrow>
      ForceDelete c s = (Some (Collab e), s\<lparr>closed_conns := closed_conns s @ [k]\<rparr>)) \<and>
   (DisconnectedAt c \<noteq> None \<longrightarrow> closed_conns (snd (ForceDelete c s)) = closed_conns s) \<and>
   ((DisconnectedAt c = None \<longrightarrow> fst (Close c s) = None) \<and>
    delete_failure (repo s) = None \<and> get_failure (repo s) = None \<longrightarrow>
      fst (ForceDelete c s) = None \<and>
      GetByID (repo (snd (ForceDelete c s))) (ID c) = Inr None \<and>
      KeepLostClients (repo (snd (ForceDelete c s))) = KeepLostClients (repo s))"
proof (intro conjI impI)
  assume "DisconnectedAt c = None \<and> Connection c = Some k"
  then show "closed_conns (snd (ForceDelete c s)) = closed_conns s @ [k]"
    by (cases "CloseError k") (auto simp: ForceDelete_def Close_def split: prod.splits)
next
  assume "DisconnectedAt c = None \<and> Connection c = Some k \<and> CloseError k = Some e"
  then show "ForceDelete c s = (Some (Collab e), s\<lparr>closed_conns := closed_conns s @ [k]\<rparr>)"
    by (simp add: ForceDelete_def Close_def)
next
  assume "DisconnectedAt c \<noteq> None"
  then show "closed_conns (snd (ForceDelete c s)) = closed_conns s"
    by (auto simp: ForceDelete_def split: prod.splits)
next
  assume a: "(DisconnectedAt c = None \<longrightarrow> fst (Close c s) = None) \<and>
    delete_failure (repo s) = None \<and> get_failure (repo s) = None"
  define sc where "sc = snd (if DisconnectedAt c = None then Close c s else (None, s))"
  from a have cl: "(if DisconnectedAt c = None then Close c s else (None, s)) = (None, sc)"
    unfolding sc_def by (cases "Close c s") auto
  have rsc: "repo sc = repo s"
    unfolding sc_def by (auto simp: Close_def split: option.splits)
  from cl have fd: "ForceDelete c s = (fst (Delete (repo sc) c), sc\<lparr>repo := snd (Delete (repo sc) c)\<rparr>)"
    by (simp add: ForceDelete_def split: prod.splits)
  from fd a rsc show "fst (ForceDelete c s) = None"
    by (simp add: Delete_def)
  from fd have "repo (snd (ForceDelete c s)) = snd (Delete (repo s) c)"
    using rsc by simp
  with a show "GetByID (repo (snd (ForceDelete c s))) (ID c) = Inr None"
    and "KeepLostClients (repo (snd (ForceDelete c s))) = KeepLostClients (repo s)"
    by (simp_all add: GetByID_Delete) (simp add: Delete_def)
qed

text \<open>
  A connected client is closed and deleted under a retention duration; with a connection
  whose close fails, the error comes back.
\<close>

theorem ForceDelete_closes_then_deletes_witness:
  "ForceDelete (ex_client ''A'' ''authX'' None [])
       (ex_state [ex_client ''A'' ''authX'' None []] (Some 60))
     = (None, (ex_state [] (Some 60))\<lparr>closed_conns := [ex_conn None]\<rparr>) \<and>
   GetByID (repo (snd (ForceDelete (ex_client ''A'' ''authX'' None [])
       (ex_state [ex_client ''A'' ''authX'' None []] (Some 60))))) ''A'' = Inr None \<and>
   fst (ForceDelete ((ex_client ''A'' ''authX'' None [])\<lparr>Connection := Some (ex_conn (Some ''EOF''))\<rparr>)
       (ex_state [ex_client ''A'' ''authX'' None []] (Some 60))) = Some (Collab ''EOF'')"
proof -
  let ?c = "ex_client ''A'' ''authX'' None []"
  let ?b = "?c\<lparr>Connection := Some (ex_conn (Some ''EOF''))\<rparr>"
  let ?s = "ex_state [?c] (Some 60)"
  have h: "(DisconnectedAt ?c = None \<longrightarrow> fst (Close ?c ?s) = None) \<and>
           delete_failure (repo ?s) = None \<and> get_failure (repo ?s) = None"
    by code_simp
  have i: "ID ?c = ''A''" by code_simp
  have hb: "DisconnectedAt ?b = None \<and> Connection ?b = Some (ex_conn (Some ''EOF'')) \<and>
            CloseError (ex_conn (Some ''EOF'')) = Some ''EOF''"
    by code_simp
  have v: "ForceDelete ?c ?s = (None, (ex_state [] (Some 60))\<lparr>closed_conns := [ex_conn None]\<rparr>)"
    by code_simp
  from ForceDelete_closes_then_deletes [of ?c "ex_conn None" ?s "''EOF''"] h i
  have one: "GetByID (repo (snd (ForceDelete ?c ?s))) ''A'' = Inr None" by simp
  from ForceDelete_closes_then_deletes [of ?b "ex_conn (Some ''EOF'')" ?s "''EOF''"] hb
  have two: "fst (ForceDelete ?b ?s) = Some (Collab ''EOF'')" by simp
  from v one two show ?thesis by simp
qed

text \<open>
  Claim C8. \<^verbatim>\<open>checkLocalPort\<close> answers each violation with an error of its own: a port
  that \<^verbatim>\<open>strconv.Atoi\<close> rejects gives a bad request (400) that names the text and wraps
  the parse error; a port that is not allowed gives a bad request (400) that names the
  port; an allowed port that is busy gives a conflict (409); an allowed free port gives no
  error. The three errors differ from each other. For a remote with a local port
  specified, the error of the check is the error of the allocation, which stops there.
\<close>

theorem checkLocalPort_errors:
  "(Atoi port = Inl e \<longrightarrow>
      checkLocalPort pd port
        = Some (APIError StatusBadRequest (InvalidLocalPort port) (Some (Collab e)))) \<and>
   (Atoi port = Inr p \<and> \<not> IsPortAllowed pd p \<longrightarrow>
      checkLocalPort pd port = Some (APIError StatusBadRequest (PortNotAllowed p) None)) \<and>
   (Atoi port = Inr p \<and> IsPortAllowed pd p \<and> IsPortBusy pd p \<longrightarrow>
      checkLocalPort pd port = Some (APIError StatusConflict (PortInUse p) None)) \<and>
   (Atoi port = Inr p \<and> IsPortAllowed pd p \<and> \<not> IsPortBusy pd p \<longrightarrow>
      checkLocalPort pd port = None) \<and>
   APIError StatusBadRequest (InvalidLocalPort port) (Some (Collab e))
     \<noteq> APIError StatusBadRequest (PortNotAllowed p) None \<and>
   APIError StatusBadRequest (InvalidLocalPort port) (Some (Collab e))
     \<noteq> APIError StatusConflict (PortInUse p) None \<and>
   APIError StatusBadRequest (PortNotAllowed p) None
     \<noteq> APIError StatusConflict (PortInUse p) None \<and>
   StatusBadRequest = 400 \<and> StatusConflict = 409 \<and>
   (IsLocalSpecified r \<and> checkLocalPort pd (LocalPort r) = Some err \<longrightarrow>
      startTunnelFor d r c pd = Inl err \<and>
      startTunnelsLoop d (r # rs) ts c pd = (Inl err, c, pd))"
  by (simp add: checkLocalPort_def startTunnelFor_def StatusBadRequest_def StatusConflict_def)

text \<open>
  The four outcomes on a distributor that allows 8080, 8081 and 9000 with 8081 busy.
\<close>

theorem checkLocalPort_errors_witness:
  "checkLocalPort (ex_pd\<lparr>busy_ports := [8081]\<rparr>) ''80a''
     = Some (APIError 400 (InvalidLocalPort ''80a'') (Some (Collab ''invalid syntax''))) \<and>
   checkLocalPort (ex_pd\<lparr>busy_ports := [8081]\<rparr>) ''22''
     = Some (APIError 400 (PortNotAllowed 22) None) \<and>
   checkLocalPort (ex_pd\<lparr>busy_ports := [8081]\<rparr>) ''8081''
     = Some (APIError 409 (PortInUse 8081) None) \<and>
   checkLocalPort (ex_pd\<lparr>busy_ports := [8081]\<rparr>) ''8080'' = None \<and>
   startTunnelFor ex_deps (ex_remote ''8081'' ''22'') (ex_client ''A'' ''authX'' None [])
       (ex_pd\<lparr>busy_ports := [8081]\<rparr>)
     = Inl (APIError 409 (PortInUse 8081) None)"
proof -
  let ?pd = "ex_pd\<lparr>busy_ports := [8081]\<rparr>"
  have a1: "Atoi ''80a'' = Inl ''invalid syntax''" by code_simp
  have a2: "Atoi ''22'' = Inr 22 \<and> \<not> IsPortAllowed ?pd 22" by code_simp
  have a3: "Atoi ''8081'' = Inr 8081 \<and> IsPortAllowed ?pd 8081 \<and> IsPortBusy ?pd 8081" by code_simp
  have a4: "Atoi ''8080'' = Inr 8080 \<and> IsPortAllowed ?pd 8080 \<and> \<not> IsPortBusy ?pd 8080" by code_simp
  have a5: "IsLocalSpecified (ex_remote ''8081'' ''22'') \<and>
            LocalPort (ex_remote ''8081'' ''22'') = ''8081''" by code_simp
  have st: "StatusBadRequest = 400 \<and> StatusConflict = 409"
    using checkLocalPort_errors by blast
  from checkLocalPort_errors [of "''80a''" "''invalid syntax''" ?pd] a1 st
  have r1: "checkLocalPort ?pd ''80a''
     = Some (APIError 400 (InvalidLocalPort ''80a'') (Some (Collab ''invalid syntax'')))"
    by simp
  from checkLocalPort_errors [of "''22''" _ ?pd 22] a2 st
  have r2: "checkLocalPort ?pd ''22'' = Some (APIError 400 (PortNotAllowed 22) None)"
    by simp
  from checkLocalPort_errors [of "''8081''" _ ?pd 8081] a3 st
  have r3: "checkLocalPort ?pd ''8081'' = Some (APIError 409 (PortInUse 8081) None)"
    by simp
  from checkLocalPort_errors [of "''8080''" _ ?pd 8080] a4
  have r4: "checkLocalPort ?pd ''8080'' = None"
    by simp
  from checkLocalPort_errors [of _ _ ?pd _ "ex_remote ''8081'' ''22''"
      "APIError 409 (PortInUse 8081) None" ex_deps "ex_client ''A'' ''authX'' None []"] a5 r3
  have r5: "startTunnelFor ex_deps (ex_remote ''8081'' ''22'') (ex_client ''A'' ''authX'' None []) ?pd
     = Inl (APIError 409 (PortInUse 8081) None)"
    by simp
  from r1 r2 r3 r4 r5 show ?thesis by simp
qed














end
